theory Spec2Isabelle
  imports Complex_Main "HOL-Library.Sublist"
begin

section \<open>The persistent store (database.py)\<close>

text \<open>
  The tables of \<^verbatim>\<open>initialize_db\<close> that the tracking engine touches, one record per row,
  one field per column. The values are the ones the program stores: \<^verbatim>\<open>add_tracked_product\<close>
  inserts an integer user id, the URL, size and name as text and the price as a float.
  A price is a \<^typ>\<open>real\<close>: the model compares and stores the number a Python float
  denotes and does not model rounding. Timestamps are readings of a clock that counts
  time units.
\<close>

record product_row =
  p_id :: int
  p_user_id :: int
  p_url :: string
  p_size :: string
  p_last_price :: real
  p_product_name :: string
  p_last_check :: nat
  p_created_at :: nat

record history_row =
  h_product_id :: int
  h_price :: real
  h_checked_at :: nat

record threshold_row =
  t_id :: int
  t_product_id :: int
  t_user_id :: int
  t_threshold_price :: real
  t_created_at :: nat

record database =
  tracked_products :: "product_row list"
  price_history :: "history_row list"
  price_thresholds :: "threshold_row list"



text \<open>
  \<^verbatim>\<open>update_product_price\<close>: the UPDATE sets \<^verbatim>\<open>last_price\<close> and \<^verbatim>\<open>last_check\<close> of every row
  with the id, the INSERT appends one row to \<^verbatim>\<open>price_history\<close>. Both read
  \<^verbatim>\<open>datetime.now()\<close>, here the clock reading \<open>now\<close>.
\<close>

definition update_product_price :: "int \<Rightarrow> real \<Rightarrow> nat \<Rightarrow> database \<Rightarrow> database" where
  "update_product_price product_id new_price now db =
     db\<lparr>tracked_products :=
          map (\<lambda>r. if p_id r = product_id
                    then r\<lparr>p_last_price := new_price, p_last_check := now\<rparr> else r)
              (tracked_products db),
        price_history :=
          price_history db @
            [\<lparr>h_product_id = product_id, h_price = new_price, h_checked_at = now\<rparr>]\<rparr>"

text \<open>A table with two users' products, for the concrete checks below.\<close>

definition example_db :: database where
  "example_db =
     \<lparr>tracked_products =
        [\<lparr>p_id = 10, p_user_id = 1, p_url = ''u10'', p_size = ''M'', p_last_price = 100,
          p_product_name = ''shirt'', p_last_check = 0, p_created_at = 0\<rparr>,
         \<lparr>p_id = 11, p_user_id = 2, p_url = ''u11'', p_size = ''hepsi'', p_last_price = 50,
          p_product_name = ''shoe'', p_last_check = 0, p_created_at = 0\<rparr>],
      price_history = [],
      price_thresholds = []\<rparr>"


section \<open>Python values, exceptions and results\<close>

text \<open>
  The exceptions the modelled code can raise. In selenium \<^verbatim>\<open>TimeoutException\<close> and
  \<^verbatim>\<open>NoSuchElementException\<close> are subclasses of \<^verbatim>\<open>WebDriverException\<close>; the others are
  Python built-ins.
\<close>

datatype exn =
  WebDriverException | TimeoutException | NoSuchElementException
  | ValueError | KeyError | AttributeError | TypeError | ZeroDivisionError

fun is_WebDriverException :: "exn \<Rightarrow> bool" where
  "is_WebDriverException WebDriverException = True"
| "is_WebDriverException TimeoutException = True"
| "is_WebDriverException NoSuchElementException = True"
| "is_WebDriverException _ = False"

text \<open>
  What a call does: it returns a value, raises, or never returns because it waits on the
  pool's queue (\<^verbatim>\<open>Queue.get()\<close> with no timeout) and nothing in a sequential run puts a
  session back.
\<close>

datatype 'a result = Ok 'a | Raise exn | Blocked

text \<open>
  The values that sit in the dictionaries the engine passes around (\<^verbatim>\<open>dict(row)\<close> of a table
  row, the \<^verbatim>\<open>details\<close> dictionary of a scrape). A dictionary is an association list read
  with \<^const>\<open>map_of\<close>.
\<close>

datatype pyval =
  PNone | PBool bool | PInt int | PFloat real | PStr string | PList "pyval list" | PTime nat

type_synonym pydict = "(string \<times> pyval) list"

definition getitem :: "pydict \<Rightarrow> string \<Rightarrow> exn + pyval" where
  \<comment> \<open>\<^verbatim>\<open>d[k]\<close>: a missing key raises \<^verbatim>\<open>KeyError\<close>.\<close>
  "getitem d k = (case map_of d k of None \<Rightarrow> Inl KeyError | Some v \<Rightarrow> Inr v)"

definition dict_get :: "pydict \<Rightarrow> string \<Rightarrow> pyval \<Rightarrow> pyval" where
  \<comment> \<open>\<^verbatim>\<open>d.get(k, default)\<close>.\<close>
  "dict_get d k dflt = (case map_of d k of None \<Rightarrow> dflt | Some v \<Rightarrow> v)"

fun truthy :: "pyval \<Rightarrow> bool" where
  "truthy PNone = False"
| "truthy (PBool b) = b"
| "truthy (PInt i) = (i \<noteq> 0)"
| "truthy (PFloat x) = (x \<noteq> 0)"
| "truthy (PStr s) = (s \<noteq> [])"
| "truthy (PList xs) = (xs \<noteq> [])"
| "truthy (PTime t) = True"

text \<open>
  Ordering comparisons are modelled between numbers, which is what prices are; between
  other values the model raises \<^verbatim>\<open>TypeError\<close>.
\<close>

fun as_number :: "pyval \<Rightarrow> exn + real" where
  "as_number (PFloat x) = Inr x"
| "as_number (PInt i) = Inr (real_of_int i)"
| "as_number (PBool b) = Inr (if b then 1 else 0)"
| "as_number _ = Inl TypeError"

definition py_lt :: "pyval \<Rightarrow> pyval \<Rightarrow> exn + bool" where
  "py_lt a b =
     (case as_number a of Inl e \<Rightarrow> Inl e
      | Inr x \<Rightarrow> (case as_number b of Inl e \<Rightarrow> Inl e | Inr y \<Rightarrow> Inr (x < y)))"

definition py_le :: "pyval \<Rightarrow> pyval \<Rightarrow> exn + bool" where
  "py_le a b =
     (case as_number a of Inl e \<Rightarrow> Inl e
      | Inr x \<Rightarrow> (case as_number b of Inl e \<Rightarrow> Inl e | Inr y \<Rightarrow> Inr (x \<le> y)))"

section \<open>Strings: strip, replace, lower and float\<close>

text \<open>
  Strings are byte strings here, and the string functions are the ASCII part of Python's:
  \<^verbatim>\<open>str.strip()\<close> removes the ASCII whitespace characters, \<^verbatim>\<open>str.lower()\<close> maps A..Z to
  a..z. \<^verbatim>\<open>str.replace(old, new)\<close> replaces the occurrences of \<open>old\<close> from left to right
  without overlap.
\<close>

definition is_space :: "char \<Rightarrow> bool" where
  "is_space c \<longleftrightarrow> (of_char c :: nat) \<in> {9, 10, 11, 12, 13, 28, 29, 30, 31, 32}"

definition strip :: "string \<Rightarrow> string" where
  "strip s = rev (dropWhile is_space (rev (dropWhile is_space s)))"

function replace :: "string \<Rightarrow> string \<Rightarrow> string \<Rightarrow> string" where
  "replace old new s =
     (if old = [] then new @ concat (map (\<lambda>c. c # new) s)
      else if s = [] then []
      else if take (length old) s = old then new @ replace old new (drop (length old) s)
      else hd s # replace old new (tl s))"
  by pat_completeness auto
termination
  by (relation "measure (\<lambda>(old, new, s). length s)") (auto simp: Suc_le_eq)

declare replace.simps [simp del]

definition lower_char :: "char \<Rightarrow> char" where
  "lower_char c = (if 65 \<le> (of_char c :: nat) \<and> (of_char c :: nat) \<le> 90
                   then char_of ((of_char c :: nat) + 32) else c)"

definition lower :: "string \<Rightarrow> string" where
  "lower s = map lower_char s"

text \<open>
  \<^verbatim>\<open>float(s)\<close> on the decimal literals of Python's grammar: surrounding whitespace, a sign,
  \<^verbatim>\<open>digitpart ::= digit (["_"] digit)*\<close>,
  \<^verbatim>\<open>number ::= [digitpart] "." digitpart | digitpart ["."]\<close> and an exponent
  \<^verbatim>\<open>("e" | "E") [sign] digitpart\<close>. \<open>None\<close> is \<^verbatim>\<open>ValueError\<close>. The result is the real number
  the literal denotes (Python rounds it to the nearest double). The spellings of infinity
  and NaN, which \<^verbatim>\<open>float\<close> also accepts, have no real value and are \<open>None\<close> here.
\<close>

definition is_digit :: "char \<Rightarrow> bool" where
  "is_digit c \<longleftrightarrow> 48 \<le> (of_char c :: nat) \<and> (of_char c :: nat) \<le> 57"

definition digit_value :: "char \<Rightarrow> nat" where
  "digit_value c = of_char c - 48"

fun more_digits :: "string \<Rightarrow> nat list \<times> string" where
  "more_digits [] = ([], [])"
| "more_digits [c] = (if is_digit c then ([digit_value c], []) else ([], [c]))"
| "more_digits (c # d # cs) =
     (if is_digit c then (case more_digits (d # cs) of (ds, r) \<Rightarrow> (digit_value c # ds, r))
      else if c = CHR ''_'' \<and> is_digit d
        then (case more_digits cs of (ds, r) \<Rightarrow> (digit_value d # ds, r))
      else ([], c # d # cs))"

definition digitpart :: "string \<Rightarrow> (nat list \<times> string) option" where
  "digitpart s =
     (case s of [] \<Rightarrow> None
      | c # cs \<Rightarrow> if is_digit c
                  then (case more_digits cs of (ds, r) \<Rightarrow> Some (digit_value c # ds, r))
                  else None)"

definition digits_value :: "nat list \<Rightarrow> nat" where
  "digits_value ds = foldl (\<lambda>a d. 10 * a + d) 0 ds"

definition number :: "string \<Rightarrow> (real \<times> string) option" where
  "number s =
     (case digitpart s of
        Some (ip, r) \<Rightarrow>
          if r \<noteq> [] \<and> hd r = CHR ''.''
          then (case digitpart (tl r) of
                  Some (fp, r') \<Rightarrow>
                    Some (real (digits_value ip) + real (digits_value fp) / 10 ^ length fp, r')
                | None \<Rightarrow> Some (real (digits_value ip), tl r))
          else Some (real (digits_value ip), r)
      | None \<Rightarrow>
          if s \<noteq> [] \<and> hd s = CHR ''.''
          then (case digitpart (tl s) of
                  Some (fp, r') \<Rightarrow> Some (real (digits_value fp) / 10 ^ length fp, r')
                | None \<Rightarrow> None)
          else None)"

definition exponent :: "string \<Rightarrow> (int \<times> string) option" where
  "exponent s =
     (if s \<noteq> [] \<and> (hd s = CHR ''e'' \<or> hd s = CHR ''E'')
      then (let t = tl s;
                neg = (t \<noteq> [] \<and> hd t = CHR ''-'');
                u = (if t \<noteq> [] \<and> (hd t = CHR ''+'' \<or> hd t = CHR ''-'') then tl t else t)
            in case digitpart u of
                 Some (ds, r) \<Rightarrow>
                   Some (if neg then - int (digits_value ds) else int (digits_value ds), r)
               | None \<Rightarrow> None)
      else Some (0, s))"

definition scale10 :: "real \<Rightarrow> int \<Rightarrow> real" where
  "scale10 m e = (if 0 \<le> e then m * 10 ^ nat e else m / 10 ^ nat (- e))"

definition py_float :: "string \<Rightarrow> real option" where
  "py_float s =
     (let t = strip s;
          neg = (t \<noteq> [] \<and> hd t = CHR ''-'');
          u = (if t \<noteq> [] \<and> (hd t = CHR ''+'' \<or> hd t = CHR ''-'') then tl t else t)
      in case number u of
           None \<Rightarrow> None
         | Some (m, r) \<Rightarrow>
             (case exponent r of
                None \<Rightarrow> None
              | Some (e, r') \<Rightarrow>
                  if r' = [] then Some (if neg then - scale10 m e else scale10 m e) else None))"

section \<open>The world around the tracker: pages, browser sessions, the log, the clock\<close>

text \<open>
  What a loaded page shows to the selenium calls of the source: whether the \<^verbatim>\<open>body\<close>
  element appears within the wait, the text of the first element of a class
  (\<^verbatim>\<open>find_element(By.CLASS_NAME, c).text\<close>; no entry: \<^verbatim>\<open>NoSuchElementException\<close>), the texts
  of the elements a CSS selector matches (\<^verbatim>\<open>find_elements(By.CSS_SELECTOR, s)\<close>; no entry:
  the empty list), and how many times the page still grows when it is scrolled to the
  bottom (the page is taken to stop growing).
\<close>

record dom =
  has_body :: bool
  class_text :: "(string \<times> string) list"
  css_texts :: "(string \<times> string list) list"
  growth :: nat

definition find_element_text :: "dom \<Rightarrow> string \<Rightarrow> exn + string" where
  "find_element_text d c =
     (case map_of (class_text d) c of None \<Rightarrow> Inl NoSuchElementException | Some t \<Rightarrow> Inr t)"

definition find_elements_texts :: "dom \<Rightarrow> string \<Rightarrow> string list" where
  "find_elements_texts d sel = (case map_of (css_texts d) sel of None \<Rightarrow> [] | Some ts \<Rightarrow> ts)"

text \<open>
  A page load (\<^verbatim>\<open>driver.get(url)\<close>) either raises \<^verbatim>\<open>WebDriverException\<close> or shows a page.
  The browser side of the world: whether a new session can be launched
  (\<^verbatim>\<open>Edge(options=options)\<close>), how many were launched (the next session's handle), which
  were quit, and the outcomes of the page loads still to come, in the order the program
  asks for them (when the list is used up a load fails).
\<close>

datatype load = LoadError | Page dom

record browser =
  launch_ok :: bool
  launched :: nat
  quit_sessions :: "nat list"
  loads :: "load list"

text \<open>
  \<^verbatim>\<open>DriverPool\<close>: the capacity, the queue of idle sessions and the counter. The Prometheus
  counters and gauges of the source are not modelled.
\<close>

record driver_pool =
  max_drivers :: int
  drivers :: "nat list"
  active_drivers :: int

datatype level = INFO | WARNING | ERROR

text \<open>
  A notification is the call of the notification callback; the model keeps the arguments
  of the \<^verbatim>\<open>_notify_...\<close> call that made it instead of the formatted message text.
\<close>

datatype notification =
  PriceDrop pyval pyval pyval pyval pyval pyval
  | ThresholdReached pyval pyval pyval pyval pyval
  | StockAvailable pyval pyval pyval

record state =
  pool :: driver_pool
  browser :: browser
  db :: database
  logged :: "(level \<times> string) list"
  sleeps :: "nat list"
  clock :: nat
  sent :: "notification list"
  notification_callback :: bool
  is_running :: bool

definition log_msg :: "level \<Rightarrow> string \<Rightarrow> state \<Rightarrow> state" where
  "log_msg lvl msg st = st\<lparr>logged := logged st @ [(lvl, msg)]\<rparr>"

definition sleep :: "nat \<Rightarrow> state \<Rightarrow> state" where
  \<comment> \<open>\<^verbatim>\<open>time.sleep(n)\<close>\<close>
  "sleep n st = st\<lparr>sleeps := sleeps st @ [n], clock := clock st + n\<rparr>"

definition driver_get :: "state \<Rightarrow> (exn + dom) \<times> state" where
  \<comment> \<open>\<^verbatim>\<open>driver.get(url)\<close>: the next page load of the world.\<close>
  "driver_get st =
     (case loads (browser st) of
        [] \<Rightarrow> (Inl WebDriverException, st)
      | l # ls \<Rightarrow>
          (case l of LoadError \<Rightarrow> Inl WebDriverException | Page d \<Rightarrow> Inr d,
           st\<lparr>browser := (browser st)\<lparr>loads := ls\<rparr>\<rparr>))"

section \<open>The driver pool (product\_tracker.py, class DriverPool)\<close>

definition create_driver :: "state \<Rightarrow> (exn + nat) \<times> state" where
  "create_driver st =
     (if launch_ok (browser st)
      then (Inr (launched (browser st)),
            log_msg INFO ''Successfully created new Edge driver''
              (st\<lparr>browser := (browser st)\<lparr>launched := Suc (launched (browser st))\<rparr>\<rparr>))
      else (Inl WebDriverException,
            log_msg ERROR ''Error in _create_driver''
              (log_msg ERROR ''Failed to create Edge driver'' st)))"

text \<open>
  \<^verbatim>\<open>get_driver\<close>, run without interruption: an idle session if the queue has one; else a new
  session if \<^verbatim>\<open>active_drivers < max_drivers\<close>; else \<^verbatim>\<open>self.drivers.get()\<close> on the empty queue,
  which waits.
\<close>

definition get_driver :: "state \<Rightarrow> nat result \<times> state" where
  "get_driver st =
     (if drivers (pool st) \<noteq> []
      then (Ok (hd (drivers (pool st))),
            st\<lparr>pool := (pool st)\<lparr>drivers := tl (drivers (pool st))\<rparr>\<rparr>)
      else if active_drivers (pool st) < max_drivers (pool st)
      then (case create_driver st of
              (Inl e, st') \<Rightarrow> (Raise e, log_msg ERROR ''Error getting driver'' st')
            | (Inr d, st') \<Rightarrow>
                (Ok d, st'\<lparr>pool := (pool st')\<lparr>active_drivers := active_drivers (pool st') + 1\<rparr>\<rparr>))
      else (Blocked, st))"

definition return_driver :: "nat \<Rightarrow> state \<Rightarrow> state" where
  "return_driver d st = st\<lparr>pool := (pool st)\<lparr>drivers := drivers (pool st) @ [d]\<rparr>\<rparr>"




section \<open>The retry decorator\<close>

text \<open>
  \<^verbatim>\<open>@retry(WebDriverException, tries=3, delay=2, backoff=2)\<close> of the \<^verbatim>\<open>retry\<close> package
  (a dependency, modelled from its documented behaviour): call the function; when it
  raises one of the given exceptions and tries are left, log a warning, sleep \<open>delay\<close>,
  multiply \<open>delay\<close> by \<open>backoff\<close> and call again; the last try's exception, and any other
  exception, goes to the caller. \<open>retry_loop\<close> counts the tries left after the current one;
  \<open>retry\<close> is for \<open>tries \<ge> 1\<close>.
\<close>

fun retry_loop ::
  "(exn \<Rightarrow> bool) \<Rightarrow> nat \<Rightarrow> nat \<Rightarrow> nat \<Rightarrow> (state \<Rightarrow> 'a result \<times> state) \<Rightarrow> state
     \<Rightarrow> 'a result \<times> state" where
  "retry_loop catches 0 delay backoff f st = f st"
| "retry_loop catches (Suc n) delay backoff f st =
     (case f st of (r, st') \<Rightarrow>
        (case r of
           Raise e \<Rightarrow>
             if catches e
             then retry_loop catches n (delay * backoff) backoff f
                    (sleep delay (log_msg WARNING ''retrying'' st'))
             else (Raise e, st')
         | Ok v \<Rightarrow> (Ok v, st')
         | Blocked \<Rightarrow> (Blocked, st')))"

definition retry ::
  "(exn \<Rightarrow> bool) \<Rightarrow> nat \<Rightarrow> nat \<Rightarrow> nat \<Rightarrow> (state \<Rightarrow> 'a result \<times> state) \<Rightarrow> state
     \<Rightarrow> 'a result \<times> state" where
  "retry catches tries delay backoff f = retry_loop catches (tries - 1) delay backoff f"

text \<open>
  A page load with nothing around it that catches its exception: what the decorator is
  made for.
\<close>

definition load_page :: "state \<Rightarrow> dom result \<times> state" where
  "load_page st =
     (case driver_get st of (Inl e, st') \<Rightarrow> (Raise e, st') | (Inr d, st') \<Rightarrow> (Ok d, st'))"

section \<open>Scraping (product\_tracker.py, store\_scrapers.py)\<close>

text \<open>
  The text clean-up of \<^verbatim>\<open>_extract_price\<close>:
  \<^verbatim>\<open>text.strip().replace('TL', '').replace('.', '').replace(',', '.').strip()\<close>.
\<close>

definition price_text :: "string \<Rightarrow> string" where
  "price_text t = strip (replace '','' ''.'' (replace ''.'' [] (replace ''TL'' [] (strip t))))"

definition price_selectors :: "string list" where
  "price_selectors = [''prc-dsc'', ''prc-slg'', ''price-box'']"

text \<open>
  The loop of \<^verbatim>\<open>_extract_price\<close> over the selectors: the first whose element is found and
  whose text \<^verbatim>\<open>float\<close> accepts is returned; any exception goes on to the next selector; after
  the last, \<^verbatim>\<open>ValueError("No valid price found")\<close>.
\<close>

fun try_price_selectors :: "dom \<Rightarrow> string list \<Rightarrow> exn + real" where
  "try_price_selectors d [] = Inl ValueError"
| "try_price_selectors d (sel # rest) =
     (case find_element_text d sel of
        Inl e \<Rightarrow> try_price_selectors d rest
      | Inr t \<Rightarrow>
          (case py_float (price_text t) of
             None \<Rightarrow> try_price_selectors d rest
           | Some v \<Rightarrow> Inr v))"

definition extract_price :: "dom \<Rightarrow> state \<Rightarrow> real \<times> state" where
  "extract_price d st =
     (case try_price_selectors d price_selectors of
        Inr v \<Rightarrow> (v, st)
      | Inl e \<Rightarrow> (0, log_msg ERROR ''Error extracting price'' st))"




text \<open>
  \<^verbatim>\<open>_scroll_page\<close>: scroll, sleep one time unit, read the height; stop when it did not
  change. The argument counts the times the page still grows.
\<close>

fun scroll_page :: "nat \<Rightarrow> state \<Rightarrow> state" where
  "scroll_page 0 st = sleep 1 st"
| "scroll_page (Suc g) st = scroll_page g (sleep 1 st)"

definition size_selectors :: "string list" where
  "size_selectors =
     [''div.sp-itm:not(.so)'', ''div.size-variant-wrapper:not(.disabled)'',
      ''div.variant-wrapper:not(.disabled)'']"

fun find_size_elements :: "dom \<Rightarrow> string list \<Rightarrow> string list \<Rightarrow> string list" where
  "find_size_elements d [] found = found"
| "find_size_elements d (sel # rest) found =
     (let els = find_elements_texts d sel
      in if els \<noteq> [] then els else find_size_elements d rest els)"

text \<open>
  The body of \<^verbatim>\<open>get_available_sizes\<close>. Every exception raised inside its \<^verbatim>\<open>try\<close> is caught
  by \<^verbatim>\<open>except Exception\<close>, logged, and turned into the empty list; the \<^verbatim>\<open>finally\<close> gives the
  session back when one was taken.
\<close>

definition get_available_sizes_body :: "pyval \<Rightarrow> state \<Rightarrow> string list result \<times> state" where
  "get_available_sizes_body url st =
     (case get_driver st of
        (Blocked, st1) \<Rightarrow> (Blocked, st1)
      | (Raise e, st1) \<Rightarrow> (Ok [], log_msg ERROR ''Error getting sizes from Trendyol'' st1)
      | (Ok drv, st1) \<Rightarrow>
          (case driver_get st1 of
             (Inl e, st2) \<Rightarrow>
               (Ok [], return_driver drv (log_msg ERROR ''Error getting sizes from Trendyol'' st2))
           | (Inr d, st2) \<Rightarrow>
               if find_elements_texts d ''div.sp-itm, div.size-variant-wrapper'' = []
               then (Ok [], return_driver drv st2)
               else (let st3 = scroll_page (growth d) st2;
                         size_elements = find_size_elements d size_selectors [];
                         sizes = map strip size_elements
                     in (Ok sizes, return_driver drv (log_msg INFO ''Found sizes'' st3)))))"

definition get_available_sizes :: "pyval \<Rightarrow> state \<Rightarrow> string list result \<times> state" where
  "get_available_sizes url = retry is_WebDriverException 3 2 2 (get_available_sizes_body url)"

definition name_selectors :: "string list" where
  "name_selectors = [''pr-new-br'', ''product-name'', ''title'']"

text \<open>
  The loop over the name selectors: \<open>None\<close> is Python's \<^verbatim>\<open>None\<close>; an empty text is kept in
  \<^verbatim>\<open>product_name\<close> and the loop goes on.
\<close>

fun find_product_name :: "dom \<Rightarrow> string list \<Rightarrow> string option \<Rightarrow> string option" where
  "find_product_name d [] product_name = product_name"
| "find_product_name d (sel # rest) product_name =
     (case find_element_text d sel of
        Inl e \<Rightarrow> find_product_name d rest product_name
      | Inr t \<Rightarrow> if strip t \<noteq> [] then Some (strip t)
                 else find_product_name d rest (Some (strip t)))"

text \<open>
  The body of \<^verbatim>\<open>get_product_details\<close>. \<open>Ok None\<close> is the return value \<^verbatim>\<open>None\<close>. As in
  \<^verbatim>\<open>get_available_sizes\<close>, \<^verbatim>\<open>except Exception\<close> catches every exception of the \<^verbatim>\<open>try\<close> block,
  logs it and returns \<^verbatim>\<open>None\<close>. The nested \<^verbatim>\<open>self.get_available_sizes(url)\<close> runs while this
  call still holds its session. The test \<^verbatim>\<open>if not driver\<close> has no branch here: a session
  object is never false.
\<close>

definition get_product_details_body :: "pyval \<Rightarrow> state \<Rightarrow> pydict option result \<times> state" where
  "get_product_details_body url st0 =
     (let st = log_msg INFO ''Getting product details for URL'' st0
      in if \<not> truthy url then (Ok None, log_msg ERROR ''Empty URL provided'' st)
      else
        (case get_driver st of
           (Blocked, st1) \<Rightarrow> (Blocked, st1)
         | (Raise e, st1) \<Rightarrow> (Ok None, log_msg ERROR ''Error in get_product_details'' st1)
         | (Ok drv, st1) \<Rightarrow>
             (case driver_get (log_msg INFO ''Loading URL in WebDriver'' st1) of
                (Inl e, st2) \<Rightarrow>
                  (Ok None, return_driver drv (log_msg ERROR ''Error in get_product_details'' st2))
              | (Inr d, st2) \<Rightarrow>
                  if \<not> has_body d
                  then (Ok None,
                        return_driver drv (log_msg ERROR ''Error in get_product_details'' st2))
                  else
                    (case find_product_name d name_selectors None of
                       None \<Rightarrow>
                         (Ok None,
                          return_driver drv (log_msg ERROR ''Could not find product name'' st2))
                     | Some product_name \<Rightarrow>
                         if product_name = []
                         then (Ok None,
                               return_driver drv
                                 (log_msg ERROR ''Could not find product name'' st2))
                         else
                           (case extract_price d st2 of (price, st3) \<Rightarrow>
                              if price \<le> 0
                              then (Ok None,
                                    return_driver drv
                                      (log_msg ERROR ''Could not find valid price'' st3))
                              else
                                (case get_available_sizes url st3 of
                                   (Blocked, st4) \<Rightarrow> (Blocked, st4)
                                 | (Raise e, st4) \<Rightarrow>
                                     (Ok None,
                                      return_driver drv
                                        (log_msg ERROR ''Error in get_product_details'' st4))
                                 | (Ok sizes, st4) \<Rightarrow>
                                     (Ok (Some
                                        [(''name'', PStr product_name),
                                         (''price'', PFloat price),
                                         (''available_sizes'', PList (map PStr sizes)),
                                         (''last_checked'', PTime (clock st4))]),
                                      return_driver drv
                                        (log_msg INFO ''Successfully got product details''
                                           st4))))))))"

definition get_product_details :: "pyval \<Rightarrow> state \<Rightarrow> pydict option result \<times> state" where
  "get_product_details url = retry is_WebDriverException 3 2 2 (get_product_details_body url)"

section \<open>Checking one product (product\_tracker.py, \_check\_product)\<close>

text \<open>
  \<^verbatim>\<open>dict(row)\<close> for a row of \<^verbatim>\<open>tracked_products\<close> and of \<^verbatim>\<open>price_thresholds\<close>: one key per
  column of the table, as \<^verbatim>\<open>initialize_db\<close> creates it.
\<close>

definition product_dict :: "product_row \<Rightarrow> pydict" where
  "product_dict r =
     [(''id'', PInt (p_id r)), (''user_id'', PInt (p_user_id r)), (''url'', PStr (p_url r)),
      (''size'', PStr (p_size r)), (''last_price'', PFloat (p_last_price r)),
      (''product_name'', PStr (p_product_name r)), (''last_check'', PTime (p_last_check r)),
      (''created_at'', PTime (p_created_at r))]"

definition threshold_dict :: "threshold_row \<Rightarrow> pydict" where
  "threshold_dict t =
     [(''id'', PInt (t_id t)), (''product_id'', PInt (t_product_id t)),
      (''user_id'', PInt (t_user_id t)), (''threshold_price'', PFloat (t_threshold_price t)),
      (''created_at'', PTime (t_created_at t))]"

definition get_all_tracked_products :: "database \<Rightarrow> pydict list" where
  "get_all_tracked_products D = map product_dict (tracked_products D)"

text \<open>
  \<^verbatim>\<open>_check_product\<close> calls three methods that no class of the repository defines:
  \<^verbatim>\<open>Database.get_product_thresholds\<close>, \<^verbatim>\<open>ProductTracker._notify_threshold_reached\<close> and
  \<^verbatim>\<open>ProductTracker._notify_stock_available\<close>. In Python the attribute lookup of such a call
  raises \<^verbatim>\<open>AttributeError\<close> before any argument is evaluated. The record says for each of
  the three whether it is defined; \<open>repository_attrs\<close> is the repository as it is. Where a flag
  is set the method behaves as the definitions below, modelled from the spec, say, so that
  the rest of \<^verbatim>\<open>_check_product\<close> can be followed past the lookup.
\<close>

record class_attrs =
  db_get_product_thresholds :: bool
  tracker_notify_threshold_reached :: bool
  tracker_notify_stock_available :: bool

definition repository_attrs :: class_attrs where
  "repository_attrs =
     \<lparr>db_get_product_thresholds = False, tracker_notify_threshold_reached = False,
      tracker_notify_stock_available = False\<rparr>"

definition all_attrs :: class_attrs where
  "all_attrs =
     \<lparr>db_get_product_thresholds = True, tracker_notify_threshold_reached = True,
      tracker_notify_stock_available = True\<rparr>"

definition get_product_thresholds :: "pyval \<Rightarrow> database \<Rightarrow> pydict list" where
  \<comment> \<open>Modelled from the spec: \<^verbatim>\<open>Database.get_product_thresholds\<close> is missing from the
     repository; the spec's \<^verbatim>\<open>getProductThresholds(id) -> [PriceThreshold]\<close> gives the
     thresholds of the product.\<close>
  "get_product_thresholds product_id D =
     map threshold_dict (filter (\<lambda>t. PInt (t_product_id t) = product_id) (price_thresholds D))"

definition emit :: "notification \<Rightarrow> state \<Rightarrow> state" where
  \<comment> \<open>\<^verbatim>\<open>if self.notification_callback: ... self.notification_callback(user_id, message)\<close>\<close>
  "emit n st = (if notification_callback st then st\<lparr>sent := sent st @ [n]\<rparr> else st)"

definition notify_threshold_reached ::
  "pyval \<Rightarrow> pyval \<Rightarrow> pyval \<Rightarrow> pyval \<Rightarrow> pyval \<Rightarrow> state \<Rightarrow> state" where
  \<comment> \<open>Modelled from the spec: \<^verbatim>\<open>ProductTracker._notify_threshold_reached\<close> is missing from the
     repository; the spec's "emit a threshold-reached notification", sent the way
     \<^verbatim>\<open>_notify_price_drop\<close> sends.\<close>
  "notify_threshold_reached user_id product_name url threshold_price current_price =
     emit (ThresholdReached user_id product_name url threshold_price current_price)"

definition notify_stock_available :: "pyval \<Rightarrow> pyval \<Rightarrow> pyval \<Rightarrow> state \<Rightarrow> state" where
  \<comment> \<open>Modelled from the spec: \<^verbatim>\<open>ProductTracker._notify_stock_available\<close> is missing from the
     repository; the spec's "emit a restock notification", sent the way \<^verbatim>\<open>_notify_price_drop\<close>
     sends.\<close>
  "notify_stock_available user_id product_name url = emit (StockAvailable user_id product_name url)"

text \<open>
  \<^verbatim>\<open>_notify_price_drop\<close>: with a callback set, the message is formatted and the callback
  called. Formatting needs numbers for the two prices (\<^verbatim>\<open>:.2f\<close>), divides by the old price
  and joins the sizes, a list of strings. \<^verbatim>\<open>_check_product\<close> passes two prices it has
  compared and the list of the scrape; for other arguments the model raises \<^verbatim>\<open>TypeError\<close>
  and does not tell Python's formatting errors apart.
\<close>

fun is_str :: "pyval \<Rightarrow> bool" where
  "is_str (PStr s) = True"
| "is_str _ = False"

definition notify_price_drop ::
  "pyval \<Rightarrow> pyval \<Rightarrow> pyval \<Rightarrow> pyval \<Rightarrow> pyval \<Rightarrow> pyval \<Rightarrow> state \<Rightarrow> unit result \<times> state" where
  "notify_price_drop user_id product_name url old_price new_price available_sizes st =
     (if \<not> notification_callback st then (Ok (), st)
      else
        (case as_number old_price of
           Inl e \<Rightarrow> (Raise e, st)
         | Inr old \<Rightarrow>
             (case as_number new_price of
                Inl e \<Rightarrow> (Raise e, st)
              | Inr new \<Rightarrow>
                  if old = 0 then (Raise ZeroDivisionError, st)
                  else
                    (case available_sizes of
                       PList xs \<Rightarrow>
                         if list_all is_str xs
                         then (Ok (),
                               emit (PriceDrop user_id product_name url old_price new_price
                                       available_sizes) st)
                         else (Raise TypeError, st)
                     | _ \<Rightarrow> (Raise TypeError, st)))))"

text \<open>An expression that may raise, followed by the statements that use its value.\<close>

definition raising :: "exn + 'a \<Rightarrow> state \<Rightarrow> ('a \<Rightarrow> 'b result \<times> state) \<Rightarrow> 'b result \<times> state" where
  "raising x st k = (case x of Inl e \<Rightarrow> (Raise e, st) | Inr v \<Rightarrow> k v)"

text \<open>
  Lines 324 to 332, the loop over the thresholds. The call's attribute lookup comes before
  its arguments.
\<close>

fun check_thresholds ::
  "class_attrs \<Rightarrow> pydict \<Rightarrow> pyval \<Rightarrow> pydict list \<Rightarrow> state \<Rightarrow> unit result \<times> state" where
  "check_thresholds a product current_price [] st = (Ok (), st)"
| "check_thresholds a product current_price (threshold # rest) st =
     raising (getitem threshold ''threshold_price'') st (\<lambda>threshold_price.
     raising (py_le current_price threshold_price) st (\<lambda>reached.
       if reached
       then
         (if \<not> tracker_notify_threshold_reached a then (Raise AttributeError, st)
          else
            raising (getitem threshold ''user_id'') st (\<lambda>user_id.
            raising (getitem product ''product_name'') st (\<lambda>product_name.
            raising (getitem product ''url'') st (\<lambda>url.
            raising (getitem threshold ''threshold_price'') st (\<lambda>threshold_price'.
              check_thresholds a product current_price rest
                (notify_threshold_reached user_id product_name url threshold_price'
                   current_price st))))))
       else check_thresholds a product current_price rest st))"

text \<open>
  Lines 335 to 340: \<^verbatim>\<open>if details['is_available'] and not product.get('was_available', True)\<close>.
\<close>

definition check_stock :: "class_attrs \<Rightarrow> pydict \<Rightarrow> pydict \<Rightarrow> state \<Rightarrow> unit result \<times> state" where
  "check_stock a product details st =
     raising (getitem details ''is_available'') st (\<lambda>is_available.
       if truthy is_available \<and> \<not> truthy (dict_get product ''was_available'' (PBool True))
       then
         (if \<not> tracker_notify_stock_available a then (Raise AttributeError, st)
          else
            raising (getitem product ''user_id'') st (\<lambda>user_id.
            raising (getitem product ''product_name'') st (\<lambda>product_name.
            raising (getitem product ''url'') st (\<lambda>url.
              (Ok (), notify_stock_available user_id product_name url st)))))
       else (Ok (), st))"

text \<open>
  Lines 342 to 354. \<^verbatim>\<open>product['size'].lower()\<close> needs a string (anything else has no
  \<^verbatim>\<open>lower\<close>); \<^verbatim>\<open>product['size'] in details['available_sizes']\<close> is membership in a list.
\<close>

definition size_matches :: "pydict \<Rightarrow> pydict \<Rightarrow> exn + bool" where
  "size_matches product details =
     (case getitem product ''size'' of
        Inl e \<Rightarrow> Inl e
      | Inr tracked_size \<Rightarrow>
          (case tracked_size of
             PStr s \<Rightarrow>
               if lower s = ''hepsi'' then Inr True
               else
                 (case getitem details ''available_sizes'' of
                    Inl e \<Rightarrow> Inl e
                  | Inr sizes \<Rightarrow>
                      (case sizes of PList xs \<Rightarrow> Inr (tracked_size \<in> set xs) | _ \<Rightarrow> Inl TypeError))
           | _ \<Rightarrow> Inl AttributeError))"

definition check_price_drop ::
  "pydict \<Rightarrow> pydict \<Rightarrow> pyval \<Rightarrow> pyval \<Rightarrow> state \<Rightarrow> unit result \<times> state" where
  "check_price_drop product details current_price last_price st =
     raising (py_lt current_price last_price) st (\<lambda>dropped.
       if dropped
       then
         raising (size_matches product details) st (\<lambda>matches.
           if matches
           then
             raising (getitem product ''user_id'') st (\<lambda>user_id.
             raising (getitem product ''product_name'') st (\<lambda>product_name.
             raising (getitem product ''url'') st (\<lambda>url.
             raising (getitem details ''available_sizes'') st (\<lambda>available_sizes.
               notify_price_drop user_id product_name url last_price current_price
                 available_sizes st))))
           else (Ok (), st))
       else (Ok (), st))"

text \<open>
  Line 356, \<^verbatim>\<open>self.db.update_product_price(product['id'], current_price)\<close>. The table's ids
  are integers and its prices numbers; the model raises \<^verbatim>\<open>TypeError\<close> for other values.
\<close>

definition persist_price :: "pydict \<Rightarrow> pyval \<Rightarrow> state \<Rightarrow> unit result \<times> state" where
  "persist_price product current_price st =
     raising (getitem product ''id'') st (\<lambda>product_id.
       case product_id of
         PInt i \<Rightarrow>
           raising (as_number current_price) st (\<lambda>price.
             (Ok (), st\<lparr>db := update_product_price i price (clock st) (db st)\<rparr>))
       | _ \<Rightarrow> (Raise TypeError, st))"

text \<open>Lines 319 to 356: what \<^verbatim>\<open>_check_product\<close> does with the details of a scrape.\<close>

definition after_scrape :: "class_attrs \<Rightarrow> pydict \<Rightarrow> pydict \<Rightarrow> state \<Rightarrow> unit result \<times> state" where
  "after_scrape a product details st =
     raising (getitem details ''price'') st (\<lambda>current_price.
     raising (getitem product ''last_price'') st (\<lambda>last_price.
       if \<not> db_get_product_thresholds a then (Raise AttributeError, st)
       else
         raising (getitem product ''id'') st (\<lambda>product_id.
           case check_thresholds a product current_price
                  (get_product_thresholds product_id (db st)) st of
             (Ok u, st1) \<Rightarrow>
               (case check_stock a product details st1 of
                  (Ok u, st2) \<Rightarrow>
                    (case check_price_drop product details current_price last_price st2 of
                       (Ok u, st3) \<Rightarrow> persist_price product current_price st3
                     | (Raise e, st3) \<Rightarrow> (Raise e, st3)
                     | (Blocked, st3) \<Rightarrow> (Blocked, st3))
                | (Raise e, st2) \<Rightarrow> (Raise e, st2)
                | (Blocked, st2) \<Rightarrow> (Blocked, st2))
           | (Raise e, st1) \<Rightarrow> (Raise e, st1)
           | (Blocked, st1) \<Rightarrow> (Blocked, st1))))"

definition check_product :: "class_attrs \<Rightarrow> pydict \<Rightarrow> state \<Rightarrow> unit result \<times> state" where
  "check_product a product st =
     raising (getitem product ''url'') st (\<lambda>url.
       case get_product_details url st of
         (Blocked, st') \<Rightarrow> (Blocked, st')
       | (Raise e, st') \<Rightarrow> (Raise e, st')
       | (Ok None, st') \<Rightarrow> (Ok (), st')
       | (Ok (Some details), st') \<Rightarrow> after_scrape a product details st')"

section \<open>One pass of the tracking loop (product\_tracker.py, \_tracking\_loop)\<close>

text \<open>
  The \<^verbatim>\<open>for\<close> loop over the products: it stops when \<^verbatim>\<open>is_running\<close> is cleared and when
  \<^verbatim>\<open>_check_product\<close> raises.
\<close>

fun check_products :: "class_attrs \<Rightarrow> pydict list \<Rightarrow> state \<Rightarrow> unit result \<times> state" where
  "check_products a [] st = (Ok (), st)"
| "check_products a (product # rest) st =
     (if \<not> is_running st then (Ok (), st)
      else
        (case check_product a product st of
           (Ok u, st') \<Rightarrow> check_products a rest st'
         | (Raise e, st') \<Rightarrow> (Raise e, st')
         | (Blocked, st') \<Rightarrow> (Blocked, st')))"

text \<open>
  One run of the body of \<^verbatim>\<open>while self.is_running\<close>: fetch the products, check them, sleep
  900; an exception is logged and followed by a sleep of 60 (or the end of the loop when
  \<^verbatim>\<open>is_running\<close> is cleared).
\<close>

definition tracking_pass :: "class_attrs \<Rightarrow> state \<Rightarrow> unit result \<times> state" where
  "tracking_pass a st =
     (case check_products a (get_all_tracked_products (db st)) st of
        (Ok u, st') \<Rightarrow> (Ok (), sleep 900 st')
      | (Raise e, st') \<Rightarrow>
          (let st'' = log_msg ERROR ''Error in tracking loop'' st'
           in if \<not> is_running st'' then (Ok (), st'') else (Ok (), sleep 60 st''))
      | (Blocked, st') \<Rightarrow> (Blocked, st'))"

section \<open>The pool under concurrent callers\<close>

text \<open>
  \<^verbatim>\<open>get_driver\<close> and \<^verbatim>\<open>return_driver\<close> take no lock, and the program calls them from the
  tracking thread and from the bot's handlers. Here each caller is a thread with a
  position in \<^verbatim>\<open>get_driver\<close>, and one step runs one line of one thread: line 41 (the
  queue's emptiness test), 42 and 49 (\<^verbatim>\<open>self.drivers.get()\<close>, which waits while the queue is
  empty), 44 (the capacity test), 45 (\<^verbatim>\<open>_create_driver()\<close>), 46 and 47 (count the session
  and return it). A thread that holds a session gives it back with \<^verbatim>\<open>return_driver\<close> in one
  step. Python switches threads between lines (and inside them), so every run of this
  model is a run of the program.
\<close>

datatype pc = Idle | At41 | At42 | At44 | At45 | At46 nat | At49 | Holding nat

record shared_pool =
  sp_max_drivers :: int
  sp_drivers :: "nat list"
  sp_active_drivers :: int
  sp_launched :: nat
  sp_threads :: "pc list"

definition queue_get :: "nat \<Rightarrow> shared_pool \<Rightarrow> shared_pool" where
  "queue_get t s =
     (if sp_drivers s = [] then s
      else s\<lparr>sp_drivers := tl (sp_drivers s),
             sp_threads := (sp_threads s)[t := Holding (hd (sp_drivers s))]\<rparr>)"

definition step :: "nat \<Rightarrow> shared_pool \<Rightarrow> shared_pool" where
  "step t s =
     (if length (sp_threads s) \<le> t then s
      else
        (case sp_threads s ! t of
           Idle \<Rightarrow> s\<lparr>sp_threads := (sp_threads s)[t := At41]\<rparr>
         | At41 \<Rightarrow>
             s\<lparr>sp_threads := (sp_threads s)[t := (if sp_drivers s \<noteq> [] then At42 else At44)]\<rparr>
         | At42 \<Rightarrow> queue_get t s
         | At44 \<Rightarrow>
             s\<lparr>sp_threads :=
                 (sp_threads s)[t := (if sp_active_drivers s < sp_max_drivers s
                                      then At45 else At49)]\<rparr>
         | At45 \<Rightarrow>
             s\<lparr>sp_launched := Suc (sp_launched s),
               sp_threads := (sp_threads s)[t := At46 (sp_launched s)]\<rparr>
         | At46 d \<Rightarrow>
             s\<lparr>sp_active_drivers := sp_active_drivers s + 1,
               sp_threads := (sp_threads s)[t := Holding d]\<rparr>
         | At49 \<Rightarrow> queue_get t s
         | Holding d \<Rightarrow>
             s\<lparr>sp_drivers := sp_drivers s @ [d],
               sp_threads := (sp_threads s)[t := Idle]\<rparr>))"

fun run :: "nat list \<Rightarrow> shared_pool \<Rightarrow> shared_pool" where
  "run [] s = s"
| "run (t # ts) s = run ts (step t s)"

fun is_holding :: "pc \<Rightarrow> bool" where
  "is_holding (Holding d) = True"
| "is_holding _ = False"

definition held :: "shared_pool \<Rightarrow> nat" where
  \<comment> \<open>the number of sessions acquired and not released\<close>
  "held s = length (filter is_holding (sp_threads s))"

definition fresh_pool :: "int \<Rightarrow> nat \<Rightarrow> shared_pool" where
  "fresh_pool m n =
     \<lparr>sp_max_drivers = m, sp_drivers = [], sp_active_drivers = 0, sp_launched = 0,
      sp_threads = replicate n Idle\<rparr>"

section \<open>Example inputs\<close>

text \<open>
  A product page with a name, a price text under the first price selector and the given
  sizes; and the tracker as \<^verbatim>\<open>__init__\<close> leaves it (the session \<^verbatim>\<open>test_driver\<close> launched is
  idle in the pool), with a callback, over a given table and given page loads to come.
\<close>

definition shop_page :: "string \<Rightarrow> string list \<Rightarrow> dom" where
  "shop_page price sizes =
     \<lparr>has_body = True,
      class_text = [(''pr-new-br'', ''Shirt''), (''prc-dsc'', price)],
      css_texts = [(''div.sp-itm, div.size-variant-wrapper'', sizes),
                   (''div.sp-itm:not(.so)'', sizes)],
      growth = 0\<rparr>"

definition tracker_state :: "database \<Rightarrow> load list \<Rightarrow> state" where
  "tracker_state D ls =
     \<lparr>pool = \<lparr>max_drivers = 3, drivers = [0], active_drivers = 1\<rparr>,
      browser = \<lparr>launch_ok = True, launched = 1, quit_sessions = [], loads = ls\<rparr>,
      db = D, logged = [], sleeps = [], clock = 0, sent = [],
      notification_callback = True, is_running = True\<rparr>"

definition shirt :: product_row where
  "shirt = \<lparr>p_id = 10, p_user_id = 1, p_url = ''u10'', p_size = ''M'', p_last_price = 100,
            p_product_name = ''shirt'', p_last_check = 0, p_created_at = 0\<rparr>"

definition shirt_db :: "threshold_row list \<Rightarrow> database" where
  "shirt_db ths = \<lparr>tracked_products = [shirt], price_history = [], price_thresholds = ths\<rparr>"

definition two_loads :: "string \<Rightarrow> string list \<Rightarrow> load list" where
  \<comment> \<open>the two loads of a successful scrape: one for the details, one for the sizes\<close>
  "two_loads price sizes = [Page (shop_page price sizes), Page (shop_page price sizes)]"

definition t90 :: threshold_row where
  "t90 = \<lparr>t_id = 1, t_product_id = 10, t_user_id = 1, t_threshold_price = 90, t_created_at = 0\<rparr>"

definition t70 :: threshold_row where
  "t70 = \<lparr>t_id = 2, t_product_id = 10, t_user_id = 1, t_threshold_price = 70, t_created_at = 0\<rparr>"

fun is_threshold_reached :: "notification \<Rightarrow> bool" where
  "is_threshold_reached (ThresholdReached u n l t c) = True"
| "is_threshold_reached _ = False"

text \<open>
  What checking a product can at most do in this program, as the proofs below show: send
  threshold notifications and nothing else, the store and the flags as they were.
\<close>

definition thresholds_only :: "state \<Rightarrow> state \<Rightarrow> bool" where
  "thresholds_only st st' \<longleftrightarrow>
     db st' = db st \<and> is_running st' = is_running st \<and>
     notification_callback st' = notification_callback st \<and>
     (\<exists>ns. sent st' = sent st @ ns \<and> list_all is_threshold_reached ns)"

text \<open>What a call leaves alone: the store, the notifications sent and the two flags.\<close>

definition untouched :: "state \<Rightarrow> state \<Rightarrow> bool" where
  "untouched st st' \<longleftrightarrow>
     db st' = db st \<and> sent st' = sent st \<and> is_running st' = is_running st \<and>
     notification_callback st' = notification_callback st"

section \<open>What scraping leaves alone\<close>

text \<open>
  The helpers only append to the log, sleep and move sessions; the lemmas below carry
  that through \<^verbatim>\<open>get_available_sizes\<close> and \<^verbatim>\<open>get_product_details\<close>. Neither body lets an
  exception out, so the retry decorator around them never sees one.
\<close>

lemma log_msg_fields [simp]:
  "db (log_msg l m st) = db st" "sent (log_msg l m st) = sent st"
  "is_running (log_msg l m st) = is_running st"
  "notification_callback (log_msg l m st) = notification_callback st"
  "pool (log_msg l m st) = pool st" "browser (log_msg l m st) = browser st"
  "sleeps (log_msg l m st) = sleeps st" "clock (log_msg l m st) = clock st"
  "logged (log_msg l m st) = logged st @ [(l, m)]"
  by (simp_all add: log_msg_def)

lemma sleep_fields [simp]:
  "db (sleep n st) = db st" "sent (sleep n st) = sent st"
  "is_running (sleep n st) = is_running st"
  "notification_callback (sleep n st) = notification_callback st"
  "pool (sleep n st) = pool st" "browser (sleep n st) = browser st"
  "logged (sleep n st) = logged st"
  "sleeps (sleep n st) = sleeps st @ [n]" "clock (sleep n st) = clock st + n"
  by (simp_all add: sleep_def)

lemma return_driver_fields [simp]:
  "db (return_driver d st) = db st" "sent (return_driver d st) = sent st"
  "is_running (return_driver d st) = is_running st"
  "notification_callback (return_driver d st) = notification_callback st"
  "browser (return_driver d st) = browser st"
  "logged (return_driver d st) = logged st"
  "sleeps (return_driver d st) = sleeps st" "clock (return_driver d st) = clock st"
  by (simp_all add: return_driver_def)

lemma scroll_page_fields [simp]:
  "db (scroll_page g st) = db st" "sent (scroll_page g st) = sent st"
  "is_running (scroll_page g st) = is_running st"
  "notification_callback (scroll_page g st) = notification_callback st"
  "pool (scroll_page g st) = pool st" "browser (scroll_page g st) = browser st"
  "logged (scroll_page g st) = logged st"
  by (induction g arbitrary: st) simp_all

lemma get_driver_fields [simp]:
  "db (snd (get_driver st)) = db st" "sent (snd (get_driver st)) = sent st"
  "is_running (snd (get_driver st)) = is_running st"
  "notification_callback (snd (get_driver st)) = notification_callback st"
  by (simp_all add: get_driver_def create_driver_def split: prod.splits sum.splits)

lemma driver_get_fields [simp]:
  "db (snd (driver_get st)) = db st" "sent (snd (driver_get st)) = sent st"
  "is_running (snd (driver_get st)) = is_running st"
  "notification_callback (snd (driver_get st)) = notification_callback st"
  "logged (snd (driver_get st)) = logged st"
  by (simp_all add: driver_get_def split: list.splits load.splits)

lemma extract_price_fields [simp]:
  "db (snd (extract_price d st)) = db st" "sent (snd (extract_price d st)) = sent st"
  "is_running (snd (extract_price d st)) = is_running st"
  "notification_callback (snd (extract_price d st)) = notification_callback st"
  by (simp_all add: extract_price_def split: sum.splits)

lemma get_available_sizes_body_fields [simp]:
  "db (snd (get_available_sizes_body url st)) = db st"
  "sent (snd (get_available_sizes_body url st)) = sent st"
  "is_running (snd (get_available_sizes_body url st)) = is_running st"
  "notification_callback (snd (get_available_sizes_body url st)) = notification_callback st"
  by (simp_all add: get_available_sizes_body_def Let_def case_prod_beta
      split: result.splits sum.splits)

lemma get_available_sizes_body_no_raise [simp]:
  "fst (get_available_sizes_body url st) \<noteq> Raise e"
  by (simp add: get_available_sizes_body_def Let_def case_prod_beta
      split: result.splits sum.splits)

lemma retry_loop_no_raise:
  assumes "\<And>e. fst (f st) \<noteq> Raise e"
  shows "retry_loop c n dl b f st = f st"
proof (cases n)
  case 0
  then show ?thesis by simp
next
  case (Suc m)
  obtain r s1 where fs: "f st = (r, s1)" by (cases "f st")
  with assms have "\<And>e. r \<noteq> Raise e" by auto
  with fs Suc show ?thesis by (cases r) auto
qed

lemma get_available_sizes_eq:
  "get_available_sizes url st = get_available_sizes_body url st"
  unfolding get_available_sizes_def retry_def
  by (rule retry_loop_no_raise) simp

lemma get_product_details_body_fields [simp]:
  "db (snd (get_product_details_body url st)) = db st"
  "sent (snd (get_product_details_body url st)) = sent st"
  "is_running (snd (get_product_details_body url st)) = is_running st"
  "notification_callback (snd (get_product_details_body url st)) = notification_callback st"
  by (simp_all add: get_product_details_body_def get_available_sizes_eq Let_def case_prod_beta
      split: result.splits sum.splits option.splits)

lemma get_product_details_body_no_raise [simp]:
  "fst (get_product_details_body url st) \<noteq> Raise e"
  by (simp add: get_product_details_body_def Let_def case_prod_beta
      split: result.splits sum.splits option.splits)

lemma get_product_details_eq:
  "get_product_details url st = get_product_details_body url st"
  unfolding get_product_details_def retry_def
  by (rule retry_loop_no_raise) simp

lemma details_shape:
  "fst (get_product_details_body url st) = Ok (Some d) \<Longrightarrow>
   \<exists>n p s t. d = [(''name'', PStr n), (''price'', PFloat p),
                  (''available_sizes'', PList (map PStr s)), (''last_checked'', PTime t)]
     \<and> 0 < p"
  by (auto simp: get_product_details_body_def Let_def case_prod_beta
      split: result.splits sum.splits option.splits if_splits)

lemma log_msg_prefix [simp]:
  "prefix xs (logged st) \<Longrightarrow> prefix xs (logged (log_msg l m st))"
  by simp

lemma get_driver_prefix [simp]:
  "prefix xs (logged st) \<Longrightarrow> prefix xs (logged (snd (get_driver st)))"
  by (simp add: get_driver_def create_driver_def split: prod.splits sum.splits)

lemma extract_price_prefix [simp]:
  "prefix xs (logged st) \<Longrightarrow> prefix xs (logged (snd (extract_price d st)))"
  by (simp add: extract_price_def split: sum.splits)

lemma get_product_details_None_logged:
  assumes "fst (get_product_details_body url st) = Ok None"
  shows "logged (snd (get_product_details_body url st)) \<noteq> []
     \<and> fst (last (logged (snd (get_product_details_body url st)))) = ERROR
     \<and> prefix (logged st) (butlast (logged (snd (get_product_details_body url st))))"
proof -
  define Q where "Q x \<longleftrightarrow>
    (fst x = Ok None \<longrightarrow>
      logged (snd x) \<noteq> [] \<and> fst (last (logged (snd x))) = ERROR
      \<and> prefix (logged st) (butlast (logged (snd x))))"
    for x :: "pydict option result \<times> state"
  have "Q (get_product_details_body url st)"
    apply (simp add: get_product_details_body_def Let_def case_prod_beta get_available_sizes_eq
        split: result.splits sum.splits option.splits)
    apply (simp_all add: Q_def butlast_append)
    done
  with assms show ?thesis by (simp add: Q_def)
qed

lemma get_product_details_fields [simp]:
  "db (snd (get_product_details url st)) = db st"
  "sent (snd (get_product_details url st)) = sent st"
  "is_running (snd (get_product_details url st)) = is_running st"
  "notification_callback (snd (get_product_details url st)) = notification_callback st"
  by (simp_all add: get_product_details_eq)

lemma untouched_get_product_details: "untouched st (snd (get_product_details url st))"
  by (simp add: untouched_def)

section \<open>What checking a product can do\<close>

text \<open>
  The dictionary of a successful scrape has the keys \<^verbatim>\<open>name\<close>, \<^verbatim>\<open>price\<close>,
  \<^verbatim>\<open>available_sizes\<close> and \<^verbatim>\<open>last_checked\<close>, so \<^verbatim>\<open>details['is_available']\<close> on line 335
  raises \<^verbatim>\<open>KeyError\<close>. Lines 342 to 356 (the price-drop notification and
  \<^verbatim>\<open>update_product_price\<close>) are therefore never reached, whichever of the three missing
  methods are supplied; with none supplied, as in the repository, line 323 already raises.
\<close>

lemma emit_fields [simp]:
  "db (emit n st) = db st" "is_running (emit n st) = is_running st"
  "notification_callback (emit n st) = notification_callback st"
  "logged (emit n st) = logged st" "pool (emit n st) = pool st"
  "browser (emit n st) = browser st"
  by (simp_all add: emit_def)

lemma thresholds_only_refl [simp]: "thresholds_only st st"
  by (simp add: thresholds_only_def)

lemma thresholds_only_trans:
  "thresholds_only a b \<Longrightarrow> thresholds_only b c \<Longrightarrow> thresholds_only a c"
  by (auto simp: thresholds_only_def)

lemma untouched_thresholds_only: "untouched a b \<Longrightarrow> thresholds_only a b"
  by (simp add: untouched_def thresholds_only_def)

lemma thresholds_only_notify:
  "thresholds_only st (notify_threshold_reached u n l t c st)"
  by (simp add: thresholds_only_def notify_threshold_reached_def emit_def)

lemma check_thresholds_only:
  "thresholds_only st (snd (check_thresholds a product c ths st))"
proof (induction ths arbitrary: st)
  case Nil
  show ?case by simp
next
  case (Cons th ths)
  have key: "\<And>u n l t. thresholds_only st
      (snd (check_thresholds a product c ths (notify_threshold_reached u n l t c st)))"
    by (rule thresholds_only_trans [OF thresholds_only_notify Cons.IH])
  show ?case
    by (simp add: raising_def key Cons.IH split: sum.splits)
qed

lemma check_thresholds_not_blocked:
  "fst (check_thresholds a product c ths st) \<noteq> Blocked"
  by (induction ths arbitrary: st) (simp_all add: raising_def split: sum.splits)

lemma check_stock_KeyError:
  "map_of details ''is_available'' = None \<Longrightarrow>
   check_stock a product details st = (Raise KeyError, st)"
  by (simp add: check_stock_def raising_def getitem_def)

lemma after_scrape_raises:
  assumes "map_of details ''is_available'' = None"
  shows "(\<exists>e. fst (after_scrape a product details st) = Raise e)
     \<and> thresholds_only st (snd (after_scrape a product details st))"
  using assms check_thresholds_only [of st a product]
    check_thresholds_not_blocked [of a product]
  by (simp add: after_scrape_def raising_def check_stock_KeyError case_prod_beta
      split: sum.splits result.splits)

lemma after_scrape_repository:
  "\<exists>e. after_scrape repository_attrs product details st = (Raise e, st)"
  by (simp add: after_scrape_def raising_def repository_attrs_def split: sum.splits)

lemma details_no_is_available:
  assumes "fst (get_product_details url st) = Ok (Some d)"
  shows "map_of d ''is_available'' = None"
proof -
  from assms have "fst (get_product_details_body url st) = Ok (Some d)"
    by (simp add: get_product_details_eq)
  then obtain n p s t where "d = [(''name'', PStr n), (''price'', PFloat p),
      (''available_sizes'', PList (map PStr s)), (''last_checked'', PTime t)]"
    using details_shape by blast
  then show ?thesis by simp
qed

lemma check_product_thresholds_only:
  "thresholds_only st (snd (check_product a product st))"
proof (cases "getitem product ''url''")
  case (Inl e)
  then show ?thesis by (simp add: check_product_def raising_def)
next
  case (Inr url)
  let ?g = "get_product_details url st"
  have u: "thresholds_only st (snd ?g)"
    by (rule untouched_thresholds_only) (rule untouched_get_product_details)
  show ?thesis
  proof (cases "fst ?g")
    case (Ok od)
    show ?thesis
    proof (cases od)
      case None
      with Ok Inr u show ?thesis
        by (simp add: check_product_def raising_def case_prod_beta)
    next
      case (Some d)
      with Ok have "map_of d ''is_available'' = None"
        by (simp add: details_no_is_available)
      then have "thresholds_only (snd ?g) (snd (after_scrape a product d (snd ?g)))"
        using after_scrape_raises by blast
      with u have "thresholds_only st (snd (after_scrape a product d (snd ?g)))"
        by (rule thresholds_only_trans)
      with Ok Some Inr show ?thesis
        by (simp add: check_product_def raising_def case_prod_beta)
    qed
  next
    case (Raise e)
    with Inr u show ?thesis by (simp add: check_product_def raising_def case_prod_beta)
  next
    case Blocked
    with Inr u show ?thesis by (simp add: check_product_def raising_def case_prod_beta)
  qed
qed

lemma check_product_Ok_iff:
  "fst (check_product a product st) = Ok () \<longleftrightarrow>
   (\<exists>url. getitem product ''url'' = Inr url \<and> fst (get_product_details url st) = Ok None)"
proof (cases "getitem product ''url''")
  case (Inl e)
  then show ?thesis by (simp add: check_product_def raising_def)
next
  case (Inr url)
  let ?g = "get_product_details url st"
  show ?thesis
  proof (cases "fst ?g")
    case (Ok od)
    show ?thesis
    proof (cases od)
      case None
      with Ok Inr show ?thesis by (simp add: check_product_def raising_def case_prod_beta)
    next
      case (Some d)
      with Ok have "map_of d ''is_available'' = None"
        by (simp add: details_no_is_available)
      then obtain e where "fst (after_scrape a product d (snd ?g)) = Raise e"
        using after_scrape_raises by blast
      with Ok Some Inr show ?thesis
        by (simp add: check_product_def raising_def case_prod_beta)
    qed
  next
    case (Raise e)
    with Inr show ?thesis by (simp add: check_product_def raising_def case_prod_beta)
  next
    case Blocked
    with Inr show ?thesis by (simp add: check_product_def raising_def case_prod_beta)
  qed
qed

lemma check_product_repository_untouched:
  "untouched st (snd (check_product repository_attrs product st))"
proof (cases "getitem product ''url''")
  case (Inl e)
  then show ?thesis by (simp add: check_product_def raising_def untouched_def)
next
  case (Inr url)
  let ?g = "get_product_details url st"
  have u: "untouched st (snd ?g)" by (rule untouched_get_product_details)
  have a: "\<And>d. snd (after_scrape repository_attrs product d (snd ?g)) = snd ?g"
    using after_scrape_repository [of product _ "snd ?g"] by (metis snd_conv)
  from Inr u a show ?thesis
    by (simp add: check_product_def raising_def case_prod_beta
        split: result.splits option.splits)
qed

section \<open>A failed scrape\<close>

text \<open>
  Claim C7. For every tracked product whose scrape gives up (\<^verbatim>\<open>get_product_details\<close>
  returns \<^verbatim>\<open>None\<close>), \<^verbatim>\<open>_check_product\<close> returns normally, in the state the scrape left: the
  store (prices, history, timestamps) and the notifications sent are as before, the log has
  grown and ends with an error line, and the loop of the pass goes on with the remaining
  products.
\<close>

theorem scrape_failure_skips_product:
  assumes "fst (get_product_details (PStr (p_url r)) st) = Ok None" and "is_running st"
  shows "check_product a (product_dict r) st
           = (Ok (), snd (get_product_details (PStr (p_url r)) st))
     \<and> db (snd (check_product a (product_dict r) st)) = db st
     \<and> sent (snd (check_product a (product_dict r) st)) = sent st
     \<and> logged (snd (check_product a (product_dict r) st)) \<noteq> []
     \<and> fst (last (logged (snd (check_product a (product_dict r) st)))) = ERROR
     \<and> prefix (logged st) (butlast (logged (snd (check_product a (product_dict r) st))))
     \<and> check_products a (product_dict r # rest) st
           = check_products a rest (snd (check_product a (product_dict r) st))"
proof -
  let ?g = "get_product_details (PStr (p_url r)) st"
  have url: "getitem (product_dict r) ''url'' = Inr (PStr (p_url r))"
    by (simp add: getitem_def product_dict_def)
  from assms(1) url have cp: "check_product a (product_dict r) st = (Ok (), snd ?g)"
    by (simp add: check_product_def raising_def case_prod_beta)
  from assms(1) have "fst (get_product_details_body (PStr (p_url r)) st) = Ok None"
    by (simp add: get_product_details_eq)
  then have lg: "logged (snd ?g) \<noteq> [] \<and> fst (last (logged (snd ?g))) = ERROR
      \<and> prefix (logged st) (butlast (logged (snd ?g)))"
    using get_product_details_None_logged [of "PStr (p_url r)" st]
    by (simp add: get_product_details_eq)
  from cp assms(2) have loop: "check_products a (product_dict r # rest) st
      = check_products a rest (snd (check_product a (product_dict r) st))"
    by simp
  from cp lg loop show ?thesis by simp
qed

text \<open>
  The page of the shirt does not load: the product is skipped, nothing is stored or sent.
\<close>

theorem scrape_failure_skips_product_witness:
  "fst (get_product_details (PStr (p_url shirt)) (tracker_state (shirt_db []) [LoadError]))
     = Ok None
   \<and> fst (check_product repository_attrs (product_dict shirt)
            (tracker_state (shirt_db []) [LoadError])) = Ok ()
   \<and> db (snd (check_product repository_attrs (product_dict shirt)
            (tracker_state (shirt_db []) [LoadError]))) = shirt_db []
   \<and> sent (snd (check_product repository_attrs (product_dict shirt)
            (tracker_state (shirt_db []) [LoadError]))) = []"
proof -
  let ?s = "tracker_state (shirt_db []) [LoadError]"
  have h1: "fst (get_product_details (PStr (p_url shirt)) ?s) = Ok None"
    by code_simp
  have h2: "is_running ?s" by (simp add: tracker_state_def)
  from scrape_failure_skips_product [OF h1 h2, of repository_attrs "[]"] h1
  show ?thesis by (simp add: tracker_state_def)
qed

text \<open>
  A whole pass over the example table when neither page loads: both products are tried,
  the store is as before and the pass ends with its sleep of 900.
\<close>

lemma failed_scrapes_pass:
  "fst (tracking_pass repository_attrs (tracker_state example_db [LoadError, LoadError])) = Ok ()
   \<and> db (snd (tracking_pass repository_attrs (tracker_state example_db [LoadError, LoadError])))
       = example_db
   \<and> sleeps (snd (tracking_pass repository_attrs
         (tracker_state example_db [LoadError, LoadError]))) = [900]
   \<and> loads (browser (snd (tracking_pass repository_attrs
         (tracker_state example_db [LoadError, LoadError])))) = []"
  by code_simp

section \<open>A successful scrape\<close>

text \<open>
  The shirt is tracked in size M at a last price of 100. Its page now shows 80 TL and the
  sizes M and L, and both loads of the scrape succeed.
\<close>

text \<open>
  Claim C1 says a price-drop notification is sent here (the price fell and M is among the
  sizes). In the program none is: \<^verbatim>\<open>_check_product\<close> raises \<^verbatim>\<open>AttributeError\<close> on line 323,
  and with the three missing methods supplied it raises \<^verbatim>\<open>KeyError\<close> on line 335; lines 342
  to 354 are not reached.
\<close>

theorem price_drop_not_sent:
  "fst (check_product repository_attrs (product_dict shirt)
          (tracker_state (shirt_db []) (two_loads ''80 TL'' [''M'', ''L''])))
     = Raise AttributeError
   \<and> sent (snd (check_product repository_attrs (product_dict shirt)
          (tracker_state (shirt_db []) (two_loads ''80 TL'' [''M'', ''L''])))) = []
   \<and> fst (check_product all_attrs (product_dict shirt)
          (tracker_state (shirt_db []) (two_loads ''80 TL'' [''M'', ''L''])))
     = Raise KeyError
   \<and> sent (snd (check_product all_attrs (product_dict shirt)
          (tracker_state (shirt_db []) (two_loads ''80 TL'' [''M'', ''L''])))) = []"
  by code_simp

text \<open>
  Claim C2 says the new price is stored and one history row appended. In the program the
  scrape succeeds with the price 80 and the table still has the last price 100 and no
  history row: line 356 is not reached, with or without the three missing methods.
\<close>

theorem price_not_persisted:
  "fst (get_product_details (PStr ''u10'')
          (tracker_state (shirt_db []) (two_loads ''80 TL'' [''M'', ''L''])))
     = Ok (Some [(''name'', PStr ''Shirt''), (''price'', PFloat 80),
                 (''available_sizes'', PList [PStr ''M'', PStr ''L'']),
                 (''last_checked'', PTime 1)])
   \<and> db (snd (check_product repository_attrs (product_dict shirt)
          (tracker_state (shirt_db []) (two_loads ''80 TL'' [''M'', ''L''])))) = shirt_db []
   \<and> db (snd (check_product all_attrs (product_dict shirt)
          (tracker_state (shirt_db []) (two_loads ''80 TL'' [''M'', ''L''])))) = shirt_db []
   \<and> p_last_price (hd (tracked_products (shirt_db []))) = 100
   \<and> price_history (shirt_db []) = []"
  by code_simp

text \<open>
  In a pass over the example table the exception of the first product's check ends the
  \<^verbatim>\<open>for\<close> loop: it is logged, the pass sleeps 60, the second product's page is never loaded
  and the store is as before.
\<close>

lemma successful_scrape_aborts_pass:
  "filter (\<lambda>e. fst e = ERROR) (logged (snd (tracking_pass repository_attrs
      (tracker_state example_db (two_loads ''80 TL'' [''M'', ''L''] @ two_loads ''40 TL'' [])))))
     = [(ERROR, ''Error in tracking loop'')]
   \<and> sleeps (snd (tracking_pass repository_attrs
      (tracker_state example_db (two_loads ''80 TL'' [''M'', ''L''] @ two_loads ''40 TL'' []))))
     = [1, 60]
   \<and> loads (browser (snd (tracking_pass repository_attrs
      (tracker_state example_db (two_loads ''80 TL'' [''M'', ''L''] @ two_loads ''40 TL'' [])))))
     = two_loads ''40 TL'' []
   \<and> db (snd (tracking_pass repository_attrs
      (tracker_state example_db (two_loads ''80 TL'' [''M'', ''L''] @ two_loads ''40 TL'' []))))
     = example_db"
  by code_simp

text \<open>
  Claim C3 says that with thresholds at 90 and 70 and the price 80 the 90-threshold
  notification is sent. In the program \<^verbatim>\<open>self.db.get_product_thresholds\<close> raises
  \<^verbatim>\<open>AttributeError\<close> and nothing is sent.
\<close>

theorem threshold_not_sent:
  "fst (check_product repository_attrs (product_dict shirt)
          (tracker_state (shirt_db [t90, t70]) (two_loads ''80 TL'' [''M'', ''L''])))
     = Raise AttributeError
   \<and> sent (snd (check_product repository_attrs (product_dict shirt)
          (tracker_state (shirt_db [t90, t70]) (two_loads ''80 TL'' [''M'', ''L''])))) = []"
  by code_simp

text \<open>
  The loop over the thresholds itself is as the claim says: with the three methods
  supplied, exactly the 90-threshold notification goes out (before line 335 raises).
\<close>

lemma threshold_sent_when_methods_exist:
  "sent (snd (check_product all_attrs (product_dict shirt)
          (tracker_state (shirt_db [t90, t70]) (two_loads ''80 TL'' [''M'', ''L'']))))
     = [ThresholdReached (PInt 1) (PStr ''shirt'') (PStr ''u10'') (PFloat 90) (PFloat 80)]"
  by code_simp

text \<open>
  Claim C4 says a restock notification is sent when a product recorded as unavailable is
  seen available. The table has no column for the recorded availability; even for a
  product dictionary that carries \<^verbatim>\<open>was_available = False\<close>, and a page that shows sizes,
  nothing is sent: \<^verbatim>\<open>details\<close> has no key \<^verbatim>\<open>is_available\<close>.
\<close>

theorem restock_not_sent:
  "fst (check_product repository_attrs (product_dict shirt @ [(''was_available'', PBool False)])
          (tracker_state (shirt_db []) (two_loads ''80 TL'' [''M'', ''L''])))
     = Raise AttributeError
   \<and> sent (snd (check_product repository_attrs
          (product_dict shirt @ [(''was_available'', PBool False)])
          (tracker_state (shirt_db []) (two_loads ''80 TL'' [''M'', ''L''])))) = []
   \<and> fst (check_product all_attrs (product_dict shirt @ [(''was_available'', PBool False)])
          (tracker_state (shirt_db []) (two_loads ''80 TL'' [''M'', ''L''])))
     = Raise KeyError
   \<and> sent (snd (check_product all_attrs
          (product_dict shirt @ [(''was_available'', PBool False)])
          (tracker_state (shirt_db []) (two_loads ''80 TL'' [''M'', ''L''])))) = []"
  by code_simp

text \<open>
  For a row of the table \<^verbatim>\<open>product.get('was_available', True)\<close> is the default, so the
  condition of line 335 is false whatever the details say: the stock check changes nothing.
\<close>

lemma check_stock_table_row:
  "snd (check_stock a (product_dict r) details st) = st"
  by (simp add: check_stock_def raising_def getitem_def dict_get_def product_dict_def
      split: option.splits sum.splits)

section \<open>Retrying a scrape\<close>

text \<open>
  Claim C6 says a scrape whose page load fails twice and then succeeds returns the
  successful result after delays of 2 and 4, with two failures logged. In the program the
  first failure is caught inside the function, logged once and turned into \<^verbatim>\<open>None\<close> (or the
  empty list): one load is attempted, nothing sleeps, and the decorator has nothing to
  retry.
\<close>

theorem retry_never_retries:
  "fst (get_product_details (PStr ''u10'')
          (tracker_state (shirt_db [])
             (LoadError # LoadError # two_loads ''80 TL'' [''M'', ''L''])))
     = Ok None
   \<and> filter (\<lambda>e. fst e \<noteq> INFO) (logged (snd (get_product_details (PStr ''u10'')
          (tracker_state (shirt_db [])
             (LoadError # LoadError # two_loads ''80 TL'' [''M'', ''L''])))))
     = [(ERROR, ''Error in get_product_details'')]
   \<and> sleeps (snd (get_product_details (PStr ''u10'')
          (tracker_state (shirt_db [])
             (LoadError # LoadError # two_loads ''80 TL'' [''M'', ''L''])))) = []
   \<and> loads (browser (snd (get_product_details (PStr ''u10'')
          (tracker_state (shirt_db [])
             (LoadError # LoadError # two_loads ''80 TL'' [''M'', ''L''])))))
     = LoadError # two_loads ''80 TL'' [''M'', ''L'']
   \<and> fst (get_available_sizes (PStr ''u10'')
          (tracker_state (shirt_db [])
             [LoadError, LoadError, Page (shop_page ''80 TL'' [''M'', ''L''])]))
     = Ok []
   \<and> sleeps (snd (get_available_sizes (PStr ''u10'')
          (tracker_state (shirt_db [])
             [LoadError, LoadError, Page (shop_page ''80 TL'' [''M'', ''L''])]))) = []"
  by code_simp

text \<open>
  The decorator does what the claim describes when an exception reaches it: around a bare
  page load, two failures are followed by sleeps of 2 and 4 and the third load's page is
  returned.
\<close>

lemma retry_decorator_retries:
  "fst (retry is_WebDriverException 3 2 2 load_page
          (tracker_state (shirt_db [])
             [LoadError, LoadError, Page (shop_page ''80 TL'' [''M'', ''L''])]))
     = Ok (shop_page ''80 TL'' [''M'', ''L''])
   \<and> sleeps (snd (retry is_WebDriverException 3 2 2 load_page
          (tracker_state (shirt_db [])
             [LoadError, LoadError, Page (shop_page ''80 TL'' [''M'', ''L''])]))) = [2, 4]
   \<and> logged (snd (retry is_WebDriverException 3 2 2 load_page
          (tracker_state (shirt_db [])
             [LoadError, LoadError, Page (shop_page ''80 TL'' [''M'', ''L''])])))
     = [(WARNING, ''retrying''), (WARNING, ''retrying'')]"
  by code_simp

section \<open>The pool's capacity under concurrent callers\<close>

text \<open>
  Claim C5 says no more than \<^verbatim>\<open>max_drivers\<close> sessions are ever out at once, also under more
  callers than the capacity. With capacity 3 and four callers on a fresh pool: each caller
  runs lines 41 and 44 (the queue is empty, \<^verbatim>\<open>active_drivers\<close> is 0) before any of them
  runs line 46; then each launches its session and counts it. Four sessions are out and
  the counter stands at 4.
\<close>

theorem pool_race:
  "held (run [0,0,0, 1,1,1, 2,2,2, 3,3,3, 0,0, 1,1, 2,2, 3,3] (fresh_pool 3 4)) = 4
   \<and> sp_max_drivers (run [0,0,0, 1,1,1, 2,2,2, 3,3,3, 0,0, 1,1, 2,2, 3,3] (fresh_pool 3 4)) = 3
   \<and> sp_active_drivers (run [0,0,0, 1,1,1, 2,2,2, 3,3,3, 0,0, 1,1, 2,2, 3,3] (fresh_pool 3 4)) = 4"
  by code_simp

text \<open>
  Run without interruption, \<^verbatim>\<open>get_driver\<close> does wait at the capacity: on an empty queue with
  the counter at \<^verbatim>\<open>max_drivers\<close> the call does not return, and once a session is given back
  the call returns that session.
\<close>

lemma get_driver_waits_when_full:
  "drivers (pool st) = [] \<Longrightarrow> max_drivers (pool st) \<le> active_drivers (pool st) \<Longrightarrow>
   get_driver st = (Blocked, st)"
  by (simp add: get_driver_def)

lemma get_driver_after_return:
  "drivers (pool st) = [] \<Longrightarrow> fst (get_driver (return_driver d st)) = Ok d"
  by (simp add: get_driver_def return_driver_def)

section \<open>Price extraction\<close>

lemma strip_idem [simp]: "strip (strip s) = strip s"
proof -
  define u where "u = dropWhile is_space s"
  define w where "w = dropWhile is_space (rev u)"
  have s: "strip s = rev w" by (simp add: strip_def u_def w_def)
  have "dropWhile is_space (rev w) = rev w"
  proof (cases "w = []")
    case True
    then show ?thesis by simp
  next
    case False
    have "rev u = takeWhile is_space (rev u) @ w" by (simp add: w_def)
    with False have "last w = last (rev u)" by (metis last_appendR)
    moreover from False have "u \<noteq> []" by (auto simp: w_def)
    ultimately have "last w = hd u" by (simp add: last_rev)
    moreover from \<open>u \<noteq> []\<close> have "\<not> is_space (hd u)"
      unfolding u_def by (rule hd_dropWhile)
    ultimately have "\<not> is_space (hd (rev w))" using False by (simp add: hd_rev)
    with False show ?thesis by (cases "rev w") auto
  qed
  then have "strip (rev w) = rev w" by (simp add: strip_def w_def)
  with s show ?thesis by simp
qed






lemma get_driver_loads [simp]:
  "loads (browser (snd (get_driver st))) = loads (browser st)"
  by (simp add: get_driver_def create_driver_def log_msg_def split: prod.splits sum.splits)




section \<open>Shutting the pool down\<close>





section \<open>Deleting a tracked product\<close>





end
